theory Spec2Isabelle
  imports Complex_Main
begin

section \<open>Data model\<close>

text \<open>
  The configuration document of \<^verbatim>\<open>FanController.load_config\<close>, restricted to the
  keys the control core reads.  \<^verbatim>\<open>load_config\<close> merges the file over a table of
  defaults, so every key is present.  Python integers are \<^typ>\<open>int\<close>.  A Python float
  that is finite is the rational number it denotes, of type \<^typ>\<open>rat\<close>; arithmetic on
  floats is IEEE 754 binary64 arithmetic, modelled below.  The coordinates of a curve point
  are finite floats (the curve editor stores floats; the CSV loader stores integers, and a
  Python integer of magnitude below \<open>2\<^sup>5\<^sup>3\<close> gives the same result as the float of
  the same value in every operation of \<^verbatim>\<open>calculate_target_pwm\<close>).
\<close>

type_synonym point = "rat \<times> rat"

record config =
  fan_max :: int
  calibration_wait :: int
  watchdog_interval :: int
  ma_window :: int
  curve :: "point list"
  mode :: string
  manual_pwm :: int
  curve_interpolation :: string

section \<open>Python helpers\<close>

text \<open>
  The exceptions the modelled code can raise: \<open>ValueError\<close> (\<^verbatim>\<open>int()\<close> on a string that
  is no integer literal, \<^verbatim>\<open>time.sleep\<close> on a negative length, \<^verbatim>\<open>round\<close> of a NaN),
  \<open>OverflowError\<close> (an integer too large for a float, \<^verbatim>\<open>round\<close> of an infinity, a
  sleep too long for the clock), \<open>ZeroDivisionError\<close> (the mean of an empty window),
  \<open>PermissionError\<close> (\<^verbatim>\<open>Path.exists()\<close> on a path that cannot be examined) and
  \<open>OSError\<close> (a failing \<^verbatim>\<open>save_config\<close>).
\<close>

datatype error = ValueError | OverflowError | ZeroDivisionError | PermissionError | OSError

text \<open>ASCII white space, as \<^verbatim>\<open>str.strip()\<close> and \<^verbatim>\<open>int()\<close> skip it.\<close>

definition is_space :: "char \<Rightarrow> bool" where
  "is_space c = (let n = (of_char c :: int) in (9 \<le> n \<and> n \<le> 13) \<or> (28 \<le> n \<and> n \<le> 32))"

definition py_strip :: "string \<Rightarrow> string" where
  "py_strip s = rev (dropWhile is_space (rev (dropWhile is_space s)))"

definition is_digit :: "char \<Rightarrow> bool" where
  "is_digit c = (let n = (of_char c :: int) in 48 \<le> n \<and> n \<le> 57)"

definition digit_val :: "char \<Rightarrow> int" where
  "digit_val c = of_char c - 48"

text \<open>
  The digits of an integer literal, most significant first; a single underscore may stand
  between two digits.
\<close>

fun parse_digits :: "int \<Rightarrow> string \<Rightarrow> int option" where
  "parse_digits acc [] = Some acc"
| "parse_digits acc (c # cs) =
     (if is_digit c then parse_digits (10 * acc + digit_val c) cs
      else if c = CHR ''_'' \<and> cs \<noteq> [] \<and> is_digit (hd cs) then parse_digits acc cs
      else None)"

definition parse_nat :: "string \<Rightarrow> int option" where
  "parse_nat cs =
     (case cs of
        [] \<Rightarrow> None
      | c # _ \<Rightarrow> if is_digit c then parse_digits 0 cs else None)"

text \<open>
  \<^verbatim>\<open>int(s)\<close> on a string of ASCII characters: optional white space around an optional
  sign and a decimal literal; \<open>None\<close> stands for \<open>ValueError\<close>.  (Digits outside ASCII and
  the interpreter's limit on the number of digits are outside this model.)
\<close>

definition py_int :: "string \<Rightarrow> int option" where
  "py_int s =
     (case py_strip s of
        [] \<Rightarrow> None
      | c # cs \<Rightarrow>
          if c = CHR ''-'' then map_option uminus (parse_nat cs)
          else if c = CHR ''+'' then parse_nat cs
          else parse_nat (c # cs))"

text \<open>\<^verbatim>\<open>str(n)\<close> of an integer.\<close>

function str_nat :: "int \<Rightarrow> string" where
  "str_nat n =
     (if n < 10 then [char_of (48 + n)]
      else str_nat (n div 10) @ [char_of (48 + n mod 10)])"
  by pat_completeness auto
termination
  by (relation "measure nat") auto

definition py_str :: "int \<Rightarrow> string" where
  "py_str i = (if i < 0 then CHR ''-'' # str_nat (- i) else str_nat i)"

text \<open>\<^verbatim>\<open>v or d\<close> on an optional string: \<open>None\<close> and the empty string are false.\<close>

definition or_default :: "string option \<Rightarrow> string \<Rightarrow> string" where
  "or_default v d = (case v of None \<Rightarrow> d | Some s \<Rightarrow> if s = [] then d else s)"

section \<open>Floating-point numbers\<close>

text \<open>
  A Python float is an IEEE 754 binary64 number: a finite value (a rational), an infinity
  or a NaN.  The sign of a zero is not modelled; nothing below depends on it, since Python
  raises on a division by zero.
\<close>

datatype pyfloat = Fin rat | PInf | NInf | NaN

text \<open>Rounding of a rational to the nearest integer, ties to the even one.\<close>

definition round_half_even :: "rat \<Rightarrow> int" where
  "round_half_even x =
     (let f = \<lfloor>x\<rfloor>; d = x - of_int f
      in if d < 1 / 2 then f else if 1 / 2 < d then f + 1 else if even f then f else f + 1)"

text \<open>The number of binary digits of a positive integer, and powers of two.\<close>

function bitlen :: "int \<Rightarrow> int" where
  "bitlen n = (if n \<le> 0 then 0 else 1 + bitlen (n div 2))"
  by pat_completeness auto
termination
  by (relation "measure nat") auto

definition sq :: "int \<Rightarrow> int" where
  "sq x = x * x"

function pow2n :: "int \<Rightarrow> int" where
  "pow2n k =
     (if k \<le> 0 then 1
      else if even k then sq (pow2n (k div 2)) else 2 * sq (pow2n (k div 2)))"
  by pat_completeness auto
termination
  by (relation "measure nat") auto

definition pow2 :: "int \<Rightarrow> rat" where
  "pow2 k = (if 0 \<le> k then of_int (pow2n k) else 1 / of_int (pow2n (- k)))"

text \<open>For \<open>a > 0\<close>, the exponent \<open>k\<close> with \<open>2\<^sup>k \<le> a < 2\<^sup>k\<^sup>+\<^sup>1\<close>.\<close>

definition ilog2 :: "rat \<Rightarrow> int" where
  "ilog2 a = (if 1 \<le> a then bitlen \<lfloor>a\<rfloor> - 1 else - bitlen (\<lceil>1 / a\<rceil> - 1))"

text \<open>
  Rounding to binary64 with an unbounded exponent range upwards: a significand of 53 bits,
  or the fixed spacing \<open>2\<^sup>-\<^sup>1\<^sup>0\<^sup>7\<^sup>4\<close> of the subnormal numbers; to nearest, ties to even.
\<close>

definition rnd64_pos :: "rat \<Rightarrow> rat" where
  "rnd64_pos a =
     (let e = max (ilog2 a - 52) (- 1074)
      in of_int (round_half_even (a / pow2 e)) * pow2 e)"

definition rnd64 :: "rat \<Rightarrow> rat" where
  "rnd64 x = (if x = 0 then 0 else if 0 < x then rnd64_pos x else - rnd64_pos (- x))"

text \<open>The float nearest to a rational: an infinity when the rounded value reaches \<open>2\<^sup>1\<^sup>0\<^sup>2\<^sup>4\<close>.\<close>

definition fl64 :: "rat \<Rightarrow> pyfloat" where
  "fl64 x =
     (let r = rnd64 x
      in if pow2 1024 \<le> r then PInf else if r \<le> - pow2 1024 then NInf else Fin r)"

text \<open>A rational that is a finite float.\<close>

definition is_double :: "rat \<Rightarrow> bool" where
  "is_double x \<longleftrightarrow> fl64 x = Fin x"

text \<open>The arithmetic of floats: the exact result, rounded; the IEEE rules for the rest.\<close>

fun fneg :: "pyfloat \<Rightarrow> pyfloat" where
  "fneg (Fin a) = Fin (- a)"
| "fneg PInf = NInf"
| "fneg NInf = PInf"
| "fneg NaN = NaN"

fun fadd :: "pyfloat \<Rightarrow> pyfloat \<Rightarrow> pyfloat" where
  "fadd (Fin a) (Fin b) = fl64 (a + b)"
| "fadd (Fin a) PInf = PInf"
| "fadd (Fin a) NInf = NInf"
| "fadd PInf (Fin b) = PInf"
| "fadd PInf PInf = PInf"
| "fadd NInf (Fin b) = NInf"
| "fadd NInf NInf = NInf"
| "fadd PInf NInf = NaN"
| "fadd NInf PInf = NaN"
| "fadd NaN y = NaN"
| "fadd x NaN = NaN"

definition fsub :: "pyfloat \<Rightarrow> pyfloat \<Rightarrow> pyfloat" where
  "fsub x y = fadd x (fneg y)"

fun fmul :: "pyfloat \<Rightarrow> pyfloat \<Rightarrow> pyfloat" where
  "fmul (Fin a) (Fin b) = fl64 (a * b)"
| "fmul (Fin a) PInf = (if a = 0 then NaN else if 0 < a then PInf else NInf)"
| "fmul (Fin a) NInf = (if a = 0 then NaN else if 0 < a then NInf else PInf)"
| "fmul PInf (Fin b) = (if b = 0 then NaN else if 0 < b then PInf else NInf)"
| "fmul NInf (Fin b) = (if b = 0 then NaN else if 0 < b then NInf else PInf)"
| "fmul PInf PInf = PInf"
| "fmul NInf NInf = PInf"
| "fmul PInf NInf = NInf"
| "fmul NInf PInf = NInf"
| "fmul NaN y = NaN"
| "fmul x NaN = NaN"

text \<open>
  Division.  Python raises \<open>ZeroDivisionError\<close> on a zero divisor; the code divides floats
  only by 100, by 255 and by a denominator it has compared with zero, so that case is not
  reached and is given the value NaN here.
\<close>

fun fdiv :: "pyfloat \<Rightarrow> pyfloat \<Rightarrow> pyfloat" where
  "fdiv (Fin a) (Fin b) = (if b = 0 then NaN else fl64 (a / b))"
| "fdiv (Fin a) PInf = Fin 0"
| "fdiv (Fin a) NInf = Fin 0"
| "fdiv PInf (Fin b) = (if b = 0 then NaN else if 0 < b then PInf else NInf)"
| "fdiv NInf (Fin b) = (if b = 0 then NaN else if 0 < b then NInf else PInf)"
| "fdiv PInf PInf = NaN"
| "fdiv PInf NInf = NaN"
| "fdiv NInf PInf = NaN"
| "fdiv NInf NInf = NaN"
| "fdiv NaN y = NaN"
| "fdiv x NaN = NaN"

fun fabs :: "pyfloat \<Rightarrow> pyfloat" where
  "fabs (Fin a) = Fin \<bar>a\<bar>"
| "fabs PInf = PInf"
| "fabs NInf = PInf"
| "fabs NaN = NaN"

text \<open>\<^verbatim>\<open>x <= y\<close> on floats: false when either side is a NaN.\<close>

fun fle :: "pyfloat \<Rightarrow> pyfloat \<Rightarrow> bool" where
  "fle (Fin a) (Fin b) = (a \<le> b)"
| "fle (Fin a) PInf = True"
| "fle (Fin a) NInf = False"
| "fle PInf (Fin b) = False"
| "fle PInf PInf = True"
| "fle PInf NInf = False"
| "fle NInf (Fin b) = True"
| "fle NInf PInf = True"
| "fle NInf NInf = True"
| "fle NaN y = False"
| "fle x NaN = False"

text \<open>
  The conversion of an integer to a float, as in \<^verbatim>\<open>x * n\<close> and \<^verbatim>\<open>x - n\<close> for a float
  \<open>x\<close> and an integer \<open>n\<close>: \<open>OverflowError\<close> when the integer is too large.
\<close>

definition float_of_int :: "int \<Rightarrow> error + rat" where
  "float_of_int n = (case fl64 (of_int n) of Fin r \<Rightarrow> Inr r | _ \<Rightarrow> Inl OverflowError)"

text \<open>
  \<^verbatim>\<open>a / b\<close> on two integers: the correctly rounded quotient, \<open>ZeroDivisionError\<close> for
  \<open>b = 0\<close>, \<open>OverflowError\<close> when the quotient is too large for a float.
\<close>

definition int_truediv :: "int \<Rightarrow> int \<Rightarrow> error + rat" where
  "int_truediv a b =
     (if b = 0 then Inl ZeroDivisionError
      else (case fl64 (of_int a / of_int b) of Fin r \<Rightarrow> Inr r | _ \<Rightarrow> Inl OverflowError))"

text \<open>\<^verbatim>\<open>round(x)\<close> of a float: to the nearest integer, ties to the even one.\<close>

fun py_round :: "pyfloat \<Rightarrow> error + int" where
  "py_round (Fin a) = Inr (round_half_even a)"
| "py_round PInf = Inl OverflowError"
| "py_round NInf = Inl OverflowError"
| "py_round NaN = Inl ValueError"

text \<open>\<^verbatim>\<open>int(x)\<close> of a float: truncation towards zero.\<close>

fun py_trunc :: "pyfloat \<Rightarrow> error + int" where
  "py_trunc (Fin a) = Inr (if 0 \<le> a then \<lfloor>a\<rfloor> else \<lceil>a\<rceil>)"
| "py_trunc PInf = Inl OverflowError"
| "py_trunc NInf = Inl OverflowError"
| "py_trunc NaN = Inl ValueError"

text \<open>
  \<^verbatim>\<open>time.sleep(secs)\<close> on a float (CPython 3.11): the length is converted to a number of
  nanoseconds, rounded away from zero; the call raises \<open>OverflowError\<close> when that number
  does not fit 64 bits and \<open>ValueError\<close> when it is negative or the length is a NaN.
  \<open>None\<close> stands for a sleep that takes place.
\<close>

definition py_sleep :: "pyfloat \<Rightarrow> error option" where
  "py_sleep secs =
     (case secs of
        NaN \<Rightarrow> Some ValueError
      | _ \<Rightarrow>
        (case fmul secs (Fin 1000000000) of
           Fin d \<Rightarrow>
             (let n = (if 0 \<le> d then \<lceil>d\<rceil> else \<lfloor>d\<rfloor>)
              in if n < - 9223372036854775808 \<or> 9223372036854775808 \<le> n then Some OverflowError
                 else if n < 0 then Some ValueError
                 else None)
         | _ \<Rightarrow> Some OverflowError))"

section \<open>Sysfs access\<close>

text \<open>
  The four path attributes of \<^verbatim>\<open>FanController\<close>
  (\<^verbatim>\<open>pwm1_enable_path\<close>, \<^verbatim>\<open>pwm1_path\<close>, \<^verbatim>\<open>fan1_input_path\<close>,
  \<^verbatim>\<open>cpu_temp_path\<close>) and what the environment answers for each at the time of a call:
  the attribute is \<open>None\<close> (\<open>NoPath\<close>); \<^verbatim>\<open>path.exists()\<close> is false (\<open>Missing\<close>);
  \<^verbatim>\<open>path.exists()\<close> itself raises because the path cannot be examined (\<open>StatError\<close>);
  opening or reading the file raises (\<open>Unreadable\<close>); or the file has a content.  A write
  succeeds, is refused with \<open>PermissionError\<close>, or raises another exception.  \<open>save_ok\<close>
  tells whether \<^verbatim>\<open>save_config\<close> succeeds.  Within one tick of the daemon and within one
  calibration run every attribute is read at most once, so one answer per attribute covers
  every behaviour of the hardware on reads.  The outcome of a write is taken to depend on
  the attribute only; it decides which message is printed and nothing else, since
  \<^verbatim>\<open>write_sys_file\<close> returns nothing and catches every exception.
\<close>

datatype sys_attr = Pwm1Enable | Pwm1 | Fan1Input | CpuTemp

datatype file_state = NoPath | Missing | StatError | Unreadable | Content string

datatype write_result = Written | PermissionDenied | WriteFailed

record env =
  rd :: "sys_attr \<Rightarrow> file_state"
  wr :: "sys_attr \<Rightarrow> write_result"
  save_ok :: bool

text \<open>
  The observable trace: calls of \<^verbatim>\<open>read_sys_file\<close> and \<^verbatim>\<open>write_sys_file\<close> on an
  attribute, printed messages, sleeps, values yielded by the calibration generator, and
  the configuration written by a successful \<^verbatim>\<open>save_config\<close>.
\<close>

datatype message =
    StartingCalibration
  | ErrorReading sys_attr
  | PermissionDeniedWriting sys_attr
  | ErrorWriting sys_attr
  | ErrorInDaemonLoop error

datatype event =
    Read sys_attr
  | Write sys_attr string
  | Print message
  | Sleep rat
  | Yield int
  | SaveConfig config

text \<open>
  \<^verbatim>\<open>read_sys_file\<close>: the test \<^verbatim>\<open>not path or not path.exists()\<close> stands before the
  \<^verbatim>\<open>try\<close>, so an exception of \<^verbatim>\<open>exists()\<close> reaches the caller; an exception of
  \<^verbatim>\<open>open\<close> or \<^verbatim>\<open>read\<close> is printed and gives \<open>None\<close>.
\<close>

definition read_sys_file :: "env \<Rightarrow> sys_attr \<Rightarrow> event list \<times> (error + string option)" where
  "read_sys_file e a =
     (case rd e a of
        NoPath \<Rightarrow> ([Read a], Inr None)
      | Missing \<Rightarrow> ([Read a], Inr None)
      | StatError \<Rightarrow> ([Read a], Inl PermissionError)
      | Unreadable \<Rightarrow> ([Read a, Print (ErrorReading a)], Inr None)
      | Content s \<Rightarrow> ([Read a], Inr (Some (py_strip s))))"

definition write_sys_file :: "env \<Rightarrow> sys_attr \<Rightarrow> string \<Rightarrow> event list" where
  "write_sys_file e a v =
     Write a v #
     (if rd e a = NoPath then []
      else (case wr e a of
              Written \<Rightarrow> []
            | PermissionDenied \<Rightarrow> [Print (PermissionDeniedWriting a)]
            | WriteFailed \<Rightarrow> [Print (ErrorWriting a)]))"

text \<open>\<^verbatim>\<open>int(val) if val else 0\<close>\<close>

definition int_or_zero :: "string option \<Rightarrow> error + int" where
  "int_or_zero val =
     (case val of
        None \<Rightarrow> Inr 0
      | Some s \<Rightarrow>
          if s = [] then Inr 0
          else (case py_int s of None \<Rightarrow> Inl ValueError | Some n \<Rightarrow> Inr n))"

definition get_fan_speed :: "env \<Rightarrow> event list \<times> (error + int)" where
  "get_fan_speed e =
     (case read_sys_file e Fan1Input of
        (ev, Inl err) \<Rightarrow> (ev, Inl err)
      | (ev, Inr val) \<Rightarrow> (ev, int_or_zero val))"

text \<open>\<^verbatim>\<open>int(val) // 1000 if val else 0\<close> when the path is set, else 0.\<close>

definition get_cpu_temp :: "env \<Rightarrow> event list \<times> (error + int)" where
  "get_cpu_temp e =
     (if rd e CpuTemp = NoPath then ([], Inr 0)
      else (case read_sys_file e CpuTemp of
              (ev, Inl err) \<Rightarrow> (ev, Inl err)
            | (ev, Inr val) \<Rightarrow>
                (ev, case int_or_zero val of Inl err \<Rightarrow> Inl err | Inr n \<Rightarrow> Inr (n div 1000))))"

definition set_fan_mode :: "env \<Rightarrow> string \<Rightarrow> event list" where
  "set_fan_mode e m =
     (if m = ''max'' then write_sys_file e Pwm1Enable (py_str 0)
      else if m = ''auto'' then write_sys_file e Pwm1Enable (py_str 2)
      else [])"

text \<open>\<^verbatim>\<open>set_fan_pwm\<close>: the trace and the exception raised, if any.\<close>

definition set_fan_pwm :: "env \<Rightarrow> int \<Rightarrow> event list \<times> error option" where
  "set_fan_pwm e v =
     (case read_sys_file e Pwm1Enable of
        (ev, Inl err) \<Rightarrow> (ev, Some err)
      | (ev, Inr current_enable) \<Rightarrow>
          (ev @ (if current_enable \<noteq> Some ''1'' then write_sys_file e Pwm1Enable (py_str 1)
                 else [])
              @ write_sys_file e Pwm1 (py_str v), None))"

section \<open>Curve evaluation (\<^verbatim>\<open>FanController.calculate_target_pwm\<close>)\<close>

text \<open>\<^verbatim>\<open>int(round(target_speed_percent / 100 * 255))\<close>\<close>

definition to_pwm :: "pyfloat \<Rightarrow> error + int" where
  "to_pwm percent = py_round (fmul (fdiv percent (Fin 100)) (Fin 255))"

text \<open>The body of the \<^verbatim>\<open>if p1[0] <= current_temp <= p2[0]\<close> branch.\<close>

definition segment_value :: "string \<Rightarrow> rat \<Rightarrow> point \<Rightarrow> point \<Rightarrow> pyfloat" where
  "segment_value interp_mode current_temp p1 p2 =
     (if interp_mode = ''discrete'' then Fin (snd p1)
      else (let denom = fsub (Fin (fst p2)) (Fin (fst p1))
            in if denom = Fin 0 then Fin (snd p2)
               else (let ratio = fdiv (fsub (Fin current_temp) (Fin (fst p1))) denom
                     in fadd (Fin (snd p1)) (fmul ratio (fsub (Fin (snd p2)) (Fin (snd p1)))))))"

text \<open>
  The loop \<^verbatim>\<open>for i in range(len(curve) - 1)\<close> with its \<^verbatim>\<open>break\<close>: the first
  bracketing pair of neighbours decides; \<open>None\<close> when the loop runs to its end.
\<close>

fun scan_segments :: "string \<Rightarrow> rat \<Rightarrow> point list \<Rightarrow> pyfloat option" where
  "scan_segments interp_mode current_temp (p1 # p2 # ps) =
     (if fst p1 \<le> current_temp \<and> current_temp \<le> fst p2
      then Some (segment_value interp_mode current_temp p1 p2)
      else scan_segments interp_mode current_temp (p2 # ps))"
| "scan_segments interp_mode current_temp ps = None"

text \<open>
  The \<^verbatim>\<open>if/elif/else\<close> on the sorted, non-empty curve.  \<^verbatim>\<open>target_speed_percent\<close>
  starts at 0 and keeps that value when the loop finds no segment.
\<close>

definition target_speed_percent :: "string \<Rightarrow> point list \<Rightarrow> rat \<Rightarrow> pyfloat" where
  "target_speed_percent interp_mode sorted_curve current_temp =
     (if current_temp \<le> fst (hd sorted_curve) then Fin (snd (hd sorted_curve))
      else if fst (last sorted_curve) \<le> current_temp then Fin (snd (last sorted_curve))
      else (case scan_segments interp_mode current_temp sorted_curve of
              Some v \<Rightarrow> v
            | None \<Rightarrow> Fin 0))"

text \<open>The value returned for a duty percentage: the PWM value, or the exception of \<^verbatim>\<open>round\<close>.\<close>

definition pwm_result :: "pyfloat \<Rightarrow> error + int option" where
  "pwm_result percent = (case to_pwm percent of Inl err \<Rightarrow> Inl err | Inr v \<Rightarrow> Inr (Some v))"

text \<open>
  \<^verbatim>\<open>sorted(curve, key=lambda p: p[0])\<close> is a stable sort on the temperature, as
  \<^const>\<open>sort_key\<close> is.  The result is \<open>None\<close> for an empty curve.
\<close>

definition calculate_target_pwm :: "config \<Rightarrow> rat \<Rightarrow> error + int option" where
  "calculate_target_pwm cfg current_temp =
     (if curve cfg = [] then Inr None
      else pwm_result (target_speed_percent (curve_interpolation cfg)
                         (sort_key fst (curve cfg)) current_temp))"

text \<open>
  The target as a function of the temperature is non-decreasing over the floats (the
  property the monotonicity claim speaks about).
\<close>

definition pwm_monotone :: "config \<Rightarrow> bool" where
  "pwm_monotone cfg \<longleftrightarrow>
     (\<forall>t t' a b. is_double t \<and> is_double t' \<and> t \<le> t'
                  \<and> calculate_target_pwm cfg t = Inr (Some a)
                  \<and> calculate_target_pwm cfg t' = Inr (Some b) \<longrightarrow> a \<le> b)"

text \<open>
  A curve as the data model describes it: integer temperatures (here of magnitude at most
  \<open>2\<^sup>5\<^sup>0\<close>) and integer duty percentages from 0 to 100.
\<close>

definition data_model_point :: "point \<Rightarrow> bool" where
  "data_model_point p \<longleftrightarrow>
     fst p \<in> \<int> \<and> \<bar>fst p\<bar> \<le> 1125899906842624 \<and> snd p \<in> \<int> \<and> 0 \<le> snd p \<and> snd p \<le> 100"

text \<open>The defaults of \<^verbatim>\<open>load_config\<close>.\<close>

definition defaults :: config where
  "defaults = \<lparr> fan_max = 0, calibration_wait = 30, watchdog_interval = 90, ma_window = 5,
     curve = [], mode = ''auto'', manual_pwm = 0, curve_interpolation = ''smooth'' \<rparr>"

section \<open>Calibration (\<^verbatim>\<open>FanController.calibrate\<close>)\<close>

text \<open>
  The loop \<^verbatim>\<open>for i in range(steps): time.sleep(wait_time / steps); yield int((i + 1) / steps * 100)\<close>:
  the trace and the exception that ends it, if any.
\<close>

fun calibration_loop :: "int \<Rightarrow> int \<Rightarrow> int list \<Rightarrow> event list \<times> error option" where
  "calibration_loop wait_time steps [] = ([], None)"
| "calibration_loop wait_time steps (i # is) =
     (case int_truediv wait_time steps of
        Inl err \<Rightarrow> ([], Some err)
      | Inr secs \<Rightarrow>
          (case py_sleep (Fin secs) of
             Some err \<Rightarrow> ([], Some err)
           | None \<Rightarrow>
               (case int_truediv (i + 1) steps of
                  Inl err \<Rightarrow> ([Sleep secs], Some err)
                | Inr q \<Rightarrow>
                    (case py_trunc (fmul (Fin q) (Fin 100)) of
                       Inl err \<Rightarrow> ([Sleep secs], Some err)
                     | Inr n \<Rightarrow>
                         (case calibration_loop wait_time steps is of
                            (ev, r) \<Rightarrow> (Sleep secs # Yield n # ev, r))))))"

text \<open>
  The snapshot at the start: the two reads stand in a \<^verbatim>\<open>try\<close> with a bare
  \<^verbatim>\<open>except\<close> that sets both values to their defaults.
\<close>

definition snapshot :: "env \<Rightarrow> event list \<times> string \<times> string" where
  "snapshot e =
     (case read_sys_file e Pwm1Enable of
        (ev1, Inl err) \<Rightarrow> (ev1, ''2'', ''0'')
      | (ev1, Inr r1) \<Rightarrow>
          (case read_sys_file e Pwm1 of
             (ev2, Inl err) \<Rightarrow> (ev1 @ ev2, ''2'', ''0'')
           | (ev2, Inr r2) \<Rightarrow> (ev1 @ ev2, or_default r1 ''2'', or_default r2 ''0'')))"

text \<open>
  The restoration block: the enable mode is written back when non-empty, the duty only
  when the previous enable mode was \<^verbatim>\<open>"1"\<close>.  \<^verbatim>\<open>write_sys_file\<close> catches every
  exception itself, so the \<^verbatim>\<open>except\<close> branch around the block is never taken.
\<close>

definition restore_fan_state :: "env \<Rightarrow> string \<Rightarrow> string \<Rightarrow> event list" where
  "restore_fan_state e prev_enable prev_pwm =
     (if prev_enable \<noteq> [] then write_sys_file e Pwm1Enable prev_enable else [])
     @ (if prev_pwm \<noteq> [] \<and> py_strip prev_enable = ''1''
        then write_sys_file e Pwm1 prev_pwm else [])"

text \<open>
  A run of the generator to its end: the trace, the value returned (or the exception that
  ends the run), and the configuration in memory afterwards.
\<close>

definition calibrate :: "env \<Rightarrow> config \<Rightarrow> event list \<times> (error + int) \<times> config" where
  "calibrate e cfg =
     (let (ev12, prev_enable, prev_pwm) = snapshot e;
          ev3 = set_fan_mode e ''max'';
          wait_time = calibration_wait cfg;
          steps = 10;
          start = [Print StartingCalibration] @ ev12 @ ev3
      in (case calibration_loop wait_time steps [0..steps - 1] of
            (ev4, Some err) \<Rightarrow> (start @ ev4, Inl err, cfg)
          | (ev4, None) \<Rightarrow>
              (case get_fan_speed e of
                 (ev5, Inl err) \<Rightarrow> (start @ ev4 @ ev5, Inl err, cfg)
               | (ev5, Inr max_rpm) \<Rightarrow>
                   (let cfg' = cfg\<lparr>fan_max := max_rpm\<rparr>
                    in if \<not> save_ok e then (start @ ev4 @ ev5, Inl OSError, cfg')
                       else (start @ ev4 @ ev5 @ [SaveConfig cfg']
                               @ restore_fan_state e prev_enable prev_pwm,
                             Inr max_rpm, cfg')))))"

text \<open>The sleeps and progress values of a trace, in order.\<close>

fun is_progress :: "event \<Rightarrow> bool" where
  "is_progress (Sleep s) = True"
| "is_progress (Yield n) = True"
| "is_progress ev = False"

fun is_yield :: "event \<Rightarrow> bool" where
  "is_yield (Yield n) = True"
| "is_yield ev = False"

fun is_write :: "event \<Rightarrow> bool" where
  "is_write (Write a v) = True"
| "is_write ev = False"

fun is_read :: "event \<Rightarrow> bool" where
  "is_read (Read a) = True"
| "is_read ev = False"

fun is_save :: "event \<Rightarrow> bool" where
  "is_save (SaveConfig c) = True"
| "is_save ev = False"

section \<open>The daemon loop (\<^verbatim>\<open>serve\<close> in \<^verbatim>\<open>omen_cli.py\<close>)\<close>

text \<open>
  The variables that live across iterations of \<^verbatim>\<open>while True\<close>.  \<^verbatim>\<open>watchdog_interval\<close>
  and \<^verbatim>\<open>ma_window\<close> are read once before the loop.  In \<^verbatim>\<open>omen_cli.py\<close> every
  iteration assigns \<^verbatim>\<open>ma_window\<close> again from the configuration before using it, so the
  value from before the loop is never used there; the packaged
  \<^verbatim>\<open>omen_fan_control/cli.py\<close> has no such assignment and keeps using it.  Times are the
  floats returned by \<^verbatim>\<open>time.time()\<close> and \<^verbatim>\<open>stat().st_mtime\<close>.
\<close>

record daemon =
  config :: config
  temp_history :: "int list"
  watchdog_interval_local :: int
  ma_window_local :: int
  last_watchdog_time :: rat
  hysteresis_start_time :: "rat option"
  last_config_mtime :: rat

text \<open>
  What one iteration receives from outside: the modification time of the configuration
  file with what \<^verbatim>\<open>load_config\<close> would return (\<open>None\<close> when \<^verbatim>\<open>stat\<close> raises), the
  sysfs answers, and the readings of the four calls of \<^verbatim>\<open>time.time()\<close>.
\<close>

record tick_input =
  config_stat :: "(rat \<times> config) option"
  sys :: env
  time_watchdog_check :: rat
  time_watchdog_reset :: rat
  time_hold_start :: rat
  time_hold_check :: rat

text \<open>
  \<^verbatim>\<open>diff = abs((target_pwm / 255) * max_rpm - current_rpm)\<close>: a division of integers,
  a product and a difference of a float and an integer.
\<close>

definition governor_diff :: "int \<Rightarrow> int \<Rightarrow> int \<Rightarrow> error + pyfloat" where
  "governor_diff max_rpm target_pwm current_rpm =
     (case int_truediv target_pwm 255 of
        Inl err \<Rightarrow> Inl err
      | Inr q \<Rightarrow>
          (case float_of_int max_rpm of
             Inl err \<Rightarrow> Inl err
           | Inr m \<Rightarrow>
               (case float_of_int current_rpm of
                  Inl err \<Rightarrow> Inl err
                | Inr c \<Rightarrow> Inr (fabs (fsub (fmul (Fin q) (Fin m)) (Fin c))))))"

text \<open>\<^verbatim>\<open>time.time() - hysteresis_start_time > 60\<close>\<close>

definition held_over_60 :: "rat \<Rightarrow> rat \<Rightarrow> bool" where
  "held_over_60 now since =
     (let held = fsub (Fin now) (Fin since) in fle (Fin 60) held \<and> held \<noteq> Fin 60)"

text \<open>
  The hysteresis decision inside \<^verbatim>\<open>if mode == "curve"\<close>: \<^verbatim>\<open>should_apply\<close> and the
  new \<^verbatim>\<open>hysteresis_start_time\<close>, before the write; or the exception raised by the
  arithmetic.
\<close>

definition governor ::
  "int \<Rightarrow> int \<Rightarrow> int \<Rightarrow> rat option \<Rightarrow> rat \<Rightarrow> rat \<Rightarrow> error + bool \<times> rat option" where
  "governor max_rpm target_pwm current_rpm hyst t_start t_check =
     (if 0 < max_rpm then
        (case governor_diff max_rpm target_pwm current_rpm of
           Inl err \<Rightarrow> Inl err
         | Inr diff \<Rightarrow>
             if fle diff (Fin 200) then
               (let hyst' = (case hyst of None \<Rightarrow> t_start | Some s \<Rightarrow> s)
                in Inr (held_over_60 t_check hyst', Some hyst'))
             else Inr (True, None))
      else Inr (True, hyst))"

text \<open>
  The block \<^verbatim>\<open>if mode == "curve"\<close>: the trace, the exception that interrupted it if any,
  and \<^verbatim>\<open>hysteresis_start_time\<close> as assigned so far.
\<close>

definition curve_step ::
  "env \<Rightarrow> config \<Rightarrow> rat option \<Rightarrow> rat \<Rightarrow> rat \<Rightarrow> rat \<Rightarrow> event list \<times> error option \<times> rat option" where
  "curve_step e cfg hyst avg_temp t_start t_check =
     (case calculate_target_pwm cfg avg_temp of
        Inl err \<Rightarrow> ([], Some err, hyst)
      | Inr None \<Rightarrow> ([], None, hyst)
      | Inr (Some target_pwm) \<Rightarrow>
          (case get_fan_speed e of
             (ev, Inl err) \<Rightarrow> (ev, Some err, hyst)
           | (ev, Inr current_rpm) \<Rightarrow>
               (case governor (fan_max cfg) target_pwm current_rpm hyst t_start t_check of
                  Inl err \<Rightarrow> (ev, Some err, hyst)
                | Inr (should_apply, hyst') \<Rightarrow>
                    if should_apply then
                      (case set_fan_pwm e target_pwm of
                         (ev2, Some err) \<Rightarrow> (ev @ ev2, Some err, hyst')
                       | (ev2, None) \<Rightarrow> (ev @ ev2, None, None))
                    else (ev, None, hyst'))))"

text \<open>
  \<^verbatim>\<open>temp_history.append(current_temp)\<close>, then one \<^verbatim>\<open>pop(0)\<close> when the list is longer
  than \<^verbatim>\<open>ma_window\<close>.
\<close>

definition push_temp :: "int \<Rightarrow> int list \<Rightarrow> int \<Rightarrow> int list" where
  "push_temp ma history current_temp =
     (let h = history @ [current_temp]
      in if ma < int (length h) then tl h else h)"

text \<open>
  The inner \<^verbatim>\<open>try\<close>: the configuration is loaded again when the modification time of
  its file has advanced; an exception of \<^verbatim>\<open>stat\<close> is ignored.
\<close>

definition reload_config :: "daemon \<Rightarrow> tick_input \<Rightarrow> daemon" where
  "reload_config d inp =
     (case config_stat inp of
        None \<Rightarrow> d
      | Some (current_mtime, loaded) \<Rightarrow>
          if last_config_mtime d < current_mtime
          then d\<lparr>config := loaded, last_config_mtime := current_mtime\<rparr>
          else d)"

text \<open>\<^verbatim>\<open>if time.time() - last_watchdog_time > watchdog_interval\<close>, a float against an integer.\<close>

definition watchdog :: "daemon \<Rightarrow> tick_input \<Rightarrow> daemon" where
  "watchdog d inp =
     (if (case fsub (Fin (time_watchdog_check inp)) (Fin (last_watchdog_time d)) of
            Fin elapsed \<Rightarrow> of_int (watchdog_interval_local d) < elapsed
          | PInf \<Rightarrow> True
          | _ \<Rightarrow> False)
      then d\<lparr>last_watchdog_time := time_watchdog_reset inp\<rparr> else d)"

text \<open>
  \<^verbatim>\<open>sum(temp_history) / len(temp_history)\<close>, a division of integers: \<open>ZeroDivisionError\<close>
  on an empty list.
\<close>

definition average :: "int list \<Rightarrow> error + rat" where
  "average history = int_truediv (sum_list history) (int (length history))"

text \<open>
  The chain \<^verbatim>\<open>if mode == "curve" ... elif mode == "manual" ... elif mode == "max" ...
  elif mode == "auto"\<close>: the trace, the exception raised if any, and
  \<^verbatim>\<open>hysteresis_start_time\<close> afterwards.  No branch is taken for any other mode.
\<close>

definition dispatch ::
  "env \<Rightarrow> config \<Rightarrow> rat option \<Rightarrow> rat \<Rightarrow> rat \<Rightarrow> rat \<Rightarrow> event list \<times> error option \<times> rat option" where
  "dispatch e cfg hyst avg_temp t_start t_check =
     (if mode cfg = ''curve'' then curve_step e cfg hyst avg_temp t_start t_check
      else if mode cfg = ''manual'' then
        (if 0 \<le> manual_pwm cfg then
           (case set_fan_pwm e (manual_pwm cfg) of (ev, r) \<Rightarrow> (ev, r, hyst))
         else ([], None, hyst))
      else if mode cfg = ''max'' then (set_fan_mode e ''max'', None, hyst)
      else if mode cfg = ''auto'' then (set_fan_mode e ''auto'', None, hyst)
      else ([], None, hyst))"

text \<open>
  The body of the outer \<^verbatim>\<open>try\<close> after the calibration check, up to the final sleep:
  the trace, the exception that interrupted it if any, and the variables as assigned so
  far.
\<close>

definition control_step :: "daemon \<Rightarrow> tick_input \<Rightarrow> event list \<times> error option \<times> daemon" where
  "control_step d inp =
     (let d2 = watchdog d inp
      in (case get_cpu_temp (sys inp) of
            (ev1, Inl err) \<Rightarrow> (ev1, Some err, d2)
          | (ev1, Inr current_temp) \<Rightarrow>
              (let history = push_temp (ma_window (config d2)) (temp_history d2) current_temp;
                   d3 = d2\<lparr>temp_history := history\<rparr>
               in (case average history of
                     Inl err \<Rightarrow> (ev1, Some err, d3)
                   | Inr avg_temp \<Rightarrow>
                       (case dispatch (sys inp) (config d3) (hysteresis_start_time d3) avg_temp
                               (time_hold_start inp) (time_hold_check inp) of
                          (ev2, r, hyst') \<Rightarrow>
                            (ev1 @ ev2, r, d3\<lparr>hysteresis_start_time := hyst'\<rparr>))))))"

text \<open>
  One iteration of \<^verbatim>\<open>while True\<close>.  In calibration mode it sleeps one second and
  continues.  An exception inside the iteration is caught by the loop, printed and
  followed by a sleep of 5 seconds; what the iteration assigned before stays assigned.
\<close>

definition serve_tick :: "daemon \<Rightarrow> tick_input \<Rightarrow> event list \<times> daemon" where
  "serve_tick d inp =
     (let d1 = reload_config d inp
      in if mode (config d1) = ''calibration'' then ([Sleep 1], d1)
         else (case control_step d1 inp of
                 (ev, None, d') \<Rightarrow> (ev @ [Sleep 2], d')
               | (ev, Some err, d') \<Rightarrow> (ev @ [Print (ErrorInDaemonLoop err), Sleep 5], d')))"

text \<open>The state before the first iteration, and a run of several iterations.\<close>

definition serve_init :: "config \<Rightarrow> rat \<Rightarrow> daemon" where
  "serve_init cfg now =
     \<lparr> config = cfg, temp_history = [], watchdog_interval_local = watchdog_interval cfg,
       ma_window_local = ma_window cfg, last_watchdog_time = now,
       hysteresis_start_time = None, last_config_mtime = 0 \<rparr>"

fun serve_run :: "daemon \<Rightarrow> tick_input list \<Rightarrow> event list \<times> daemon" where
  "serve_run d [] = ([], d)"
| "serve_run d (inp # inps) =
     (case serve_tick d inp of
        (ev, d') \<Rightarrow> (case serve_run d' inps of (evs, d'') \<Rightarrow> (ev @ evs, d'')))"

section \<open>The daemon loop of the package (\<^verbatim>\<open>serve\<close> in \<^verbatim>\<open>omen_fan_control/cli.py\<close>)\<close>

text \<open>
  The packaged copy of the loop is the same code without the assignment
  \<^verbatim>\<open>ma_window = controller.config.get("ma_window", 5)\<close> inside the loop: the window is
  trimmed against the value read before the loop.
\<close>

definition control_step_packaged ::
  "daemon \<Rightarrow> tick_input \<Rightarrow> event list \<times> error option \<times> daemon" where
  "control_step_packaged d inp =
     (let d2 = watchdog d inp
      in (case get_cpu_temp (sys inp) of
            (ev1, Inl err) \<Rightarrow> (ev1, Some err, d2)
          | (ev1, Inr current_temp) \<Rightarrow>
              (let history = push_temp (ma_window_local d2) (temp_history d2) current_temp;
                   d3 = d2\<lparr>temp_history := history\<rparr>
               in (case average history of
                     Inl err \<Rightarrow> (ev1, Some err, d3)
                   | Inr avg_temp \<Rightarrow>
                       (case dispatch (sys inp) (config d3) (hysteresis_start_time d3) avg_temp
                               (time_hold_start inp) (time_hold_check inp) of
                          (ev2, r, hyst') \<Rightarrow>
                            (ev1 @ ev2, r, d3\<lparr>hysteresis_start_time := hyst'\<rparr>))))))"

definition serve_tick_packaged :: "daemon \<Rightarrow> tick_input \<Rightarrow> event list \<times> daemon" where
  "serve_tick_packaged d inp =
     (let d1 = reload_config d inp
      in if mode (config d1) = ''calibration'' then ([Sleep 1], d1)
         else (case control_step_packaged d1 inp of
                 (ev, None, d') \<Rightarrow> (ev @ [Sleep 2], d')
               | (ev, Some err, d') \<Rightarrow> (ev @ [Print (ErrorInDaemonLoop err), Sleep 5], d')))"

fun serve_run_packaged :: "daemon \<Rightarrow> tick_input list \<Rightarrow> event list \<times> daemon" where
  "serve_run_packaged d [] = ([], d)"
| "serve_run_packaged d (inp # inps) =
     (case serve_tick_packaged d inp of
        (ev, d') \<Rightarrow> (case serve_run_packaged d' inps of (evs, d'') \<Rightarrow> (ev @ evs, d'')))"

section \<open>Environments and inputs for examples\<close>

text \<open>An environment with every file present and writable.\<close>

definition healthy_env :: env where
  "healthy_env =
     \<lparr> rd = (\<lambda>a. case a of
                   Pwm1Enable \<Rightarrow> Content ''1\<newline>''
                 | Pwm1 \<Rightarrow> Content ''77\<newline>''
                 | Fan1Input \<Rightarrow> Content ''5600\<newline>''
                 | CpuTemp \<Rightarrow> Content ''45000\<newline>''),
       wr = (\<lambda>a. Written), save_ok = True \<rparr>"

text \<open>An iteration at time \<open>now\<close> that finds the configuration file unchanged.\<close>

definition tick_at :: "env \<Rightarrow> rat \<Rightarrow> tick_input" where
  "tick_at e now =
     \<lparr> config_stat = None, sys = e, time_watchdog_check = now, time_watchdog_reset = now,
       time_hold_start = now, time_hold_check = now \<rparr>"

text \<open>An iteration at time \<open>now\<close> that finds the configuration file rewritten.\<close>

definition tick_reload :: "config \<Rightarrow> env \<Rightarrow> rat \<Rightarrow> tick_input" where
  "tick_reload cfg e now = (tick_at e now)\<lparr>config_stat := Some (now, cfg)\<rparr>"

text \<open>
  The hold scenario: a calibrated maximum of 6000 RPM, a CPU at 45 degrees (target duty
  20 percent, PWM 51, 1200 RPM) and a fan measured at 1250 RPM, 50 RPM from the target.
\<close>

definition hold_config :: config where
  "hold_config = defaults\<lparr>mode := ''curve'', fan_max := 6000,
     curve := [(30, 0), (60, 40), (90, 85)]\<rparr>"

definition hold_env :: env where
  "hold_env = healthy_env\<lparr>rd := (rd healthy_env)(Fan1Input := Content ''1250\<newline>'')\<rparr>"

text \<open>An environment whose CPU sensor reads the given number of degrees.\<close>

definition env_at :: "int \<Rightarrow> env" where
  "env_at degrees =
     healthy_env\<lparr>rd := (rd healthy_env)(CpuTemp := Content (py_str (degrees * 1000)))\<rparr>"

section \<open>Properties of floating-point rounding\<close>

subsection \<open>Rounding to an integer\<close>

lemma round_half_even_cases:
  "round_half_even x = \<lfloor>x\<rfloor> \<and> x - of_int \<lfloor>x\<rfloor> \<le> 1/2
   \<or> round_half_even x = \<lfloor>x\<rfloor> + 1 \<and> 1/2 \<le> x - of_int \<lfloor>x\<rfloor>"
  unfolding round_half_even_def Let_def by auto

lemma round_half_even_mono:
  assumes "x \<le> y" shows "round_half_even x \<le> round_half_even y"
proof (cases "\<lfloor>x\<rfloor> = \<lfloor>y\<rfloor>")
  case True
  with assms show ?thesis
    unfolding round_half_even_def Let_def by auto
next
  case False
  with assms have "\<lfloor>x\<rfloor> < \<lfloor>y\<rfloor>" using floor_mono [of x y] by linarith
  moreover have "round_half_even x \<le> \<lfloor>x\<rfloor> + 1" unfolding round_half_even_def Let_def by auto
  moreover have "\<lfloor>y\<rfloor> \<le> round_half_even y" unfolding round_half_even_def Let_def by auto
  ultimately show ?thesis by linarith
qed

lemma round_half_even_of_int [simp]: "round_half_even (of_int n) = n"
  unfolding round_half_even_def Let_def by simp

lemma round_half_even_le: "x \<le> of_int n \<Longrightarrow> round_half_even x \<le> n"
  using round_half_even_mono [of x "of_int n"] by simp

lemma round_half_even_ge: "of_int n \<le> x \<Longrightarrow> n \<le> round_half_even x"
  using round_half_even_mono [of "of_int n" x] by simp

subsection \<open>Powers of two and binary logarithms\<close>

declare bitlen.simps [simp del] pow2n.simps [simp del] str_nat.simps [simp del]

lemma pow2n_eq: "0 \<le> k \<Longrightarrow> pow2n k = 2 ^ nat k"
proof (induction k rule: pow2n.induct)
  case (1 k)
  show ?case
  proof (cases "k \<le> 0")
    case True
    with 1 have "k = 0" by simp
    then show ?thesis by (subst pow2n.simps) simp
  next
    case False
    then have ih: "pow2n (k div 2) = 2 ^ nat (k div 2)"
      using 1 by (cases "even k") auto
    show ?thesis
    proof (cases "even k")
      case True
      then have "nat k = nat (k div 2) + nat (k div 2)" using False by (auto elim!: evenE)
      then have "(2::int) ^ nat k = 2 ^ nat (k div 2) * 2 ^ nat (k div 2)"
        by (simp add: power_add)
      with False True ih show ?thesis by (subst pow2n.simps) (simp add: sq_def)
    next
      case odd: False
      then have "nat k = Suc (nat (k div 2) + nat (k div 2))" using False by (auto elim!: oddE)
      then have "(2::int) ^ nat k = 2 * (2 ^ nat (k div 2) * 2 ^ nat (k div 2))"
        by (simp add: power_add)
      with False odd ih show ?thesis by (subst pow2n.simps) (simp add: sq_def)
    qed
  qed
qed

lemma pow2_eq: "pow2 k = 2 powi k"
  unfolding pow2_def power_int_def by (simp add: pow2n_eq inverse_eq_divide power_one_over)

lemma pow2_pos [simp]: "0 < pow2 k"
  by (simp add: pow2_eq)

lemma pow2_add: "pow2 (j + k) = pow2 j * pow2 k"
  by (simp add: pow2_eq power_int_add)

lemma pow2_mono: "j \<le> k \<Longrightarrow> pow2 j \<le> pow2 k"
  by (simp add: pow2_eq power_int_increasing)

lemma pow2_less_cancel: "pow2 j < pow2 k \<Longrightarrow> j < k"
  using pow2_mono [of k j] by (cases "j < k") auto

lemma pow2_nonneg_int: "0 \<le> k \<Longrightarrow> pow2 k = of_int (2 ^ nat k)"
  by (simp add: pow2_def pow2n_eq)

lemma bitlen_pos: "0 < n \<Longrightarrow> 0 < bitlen n"
proof (induction n rule: bitlen.induct)
  case (1 n)
  then show ?case
    by (subst bitlen.simps) (cases "0 < n div 2"; simp add: bitlen.simps [of 0])
qed

lemma bitlen_bounds: "0 < n \<Longrightarrow> 2 ^ nat (bitlen n - 1) \<le> n \<and> n < 2 ^ nat (bitlen n)"
proof (induction n rule: bitlen.induct)
  case (1 n)
  show ?case
  proof (cases "n = 1")
    case True
    have "bitlen 1 = 1" by (simp add: bitlen.simps [of 1] bitlen.simps [of 0])
    with True show ?thesis by simp
  next
    case False
    with 1 have pos: "0 < n div 2" by simp
    with 1 have ih: "2 ^ nat (bitlen (n div 2) - 1) \<le> n div 2" "n div 2 < 2 ^ nat (bitlen (n div 2))"
      by auto
    have bp: "0 < bitlen (n div 2)" using pos by (rule bitlen_pos)
    have b: "bitlen n = 1 + bitlen (n div 2)" using 1(2) by (subst bitlen.simps) simp
    have e1: "nat (bitlen n - 1) = Suc (nat (bitlen (n div 2) - 1))" using b bp by simp
    have e2: "nat (bitlen n) = Suc (nat (bitlen (n div 2)))" using b bp by simp
    have "2 * 2 ^ nat (bitlen (n div 2) - 1) \<le> n" using ih(1) by linarith
    moreover have "n < 2 * 2 ^ nat (bitlen (n div 2))" using ih(2) by linarith
    ultimately show ?thesis unfolding e1 e2 by simp
  qed
qed

lemma pow2_minus: "pow2 (- k) = 1 / pow2 k"
  by (simp add: pow2_eq power_int_minus inverse_eq_divide)

lemma ilog2_bounds:
  assumes "0 < a"
  shows "pow2 (ilog2 a) \<le> a" and "a < pow2 (ilog2 a + 1)"
proof -
  have "pow2 (ilog2 a) \<le> a \<and> a < pow2 (ilog2 a + 1)"
  proof (cases "1 \<le> a")
    case True
    then have fp: "0 < \<lfloor>a\<rfloor>" by simp
    have k: "ilog2 a = bitlen \<lfloor>a\<rfloor> - 1" using True by (simp add: ilog2_def)
    have bp: "0 < bitlen \<lfloor>a\<rfloor>" using fp by (rule bitlen_pos)
    from bitlen_bounds [OF fp]
    have b1: "2 ^ nat (bitlen \<lfloor>a\<rfloor> - 1) \<le> \<lfloor>a\<rfloor>" and b2: "\<lfloor>a\<rfloor> < 2 ^ nat (bitlen \<lfloor>a\<rfloor>)" by auto
    have "pow2 (ilog2 a) = of_int (2 ^ nat (bitlen \<lfloor>a\<rfloor> - 1))"
      using bp by (simp add: k pow2_nonneg_int)
    also have "\<dots> \<le> of_int \<lfloor>a\<rfloor>" using b1 by (simp only: of_int_le_iff)
    also have "\<dots> \<le> a" by simp
    finally have l: "pow2 (ilog2 a) \<le> a" .
    have "\<lfloor>a\<rfloor> + 1 \<le> 2 ^ nat (bitlen \<lfloor>a\<rfloor>)" using b2 by simp
    then have "rat_of_int (\<lfloor>a\<rfloor> + 1) \<le> of_int (2 ^ nat (bitlen \<lfloor>a\<rfloor>))" by (simp only: of_int_le_iff)
    moreover have "a < of_int (\<lfloor>a\<rfloor> + 1)" by linarith
    moreover have "pow2 (ilog2 a + 1) = of_int (2 ^ nat (bitlen \<lfloor>a\<rfloor>))"
      using bp by (simp add: k pow2_nonneg_int)
    ultimately have "a < pow2 (ilog2 a + 1)" by linarith
    with l show ?thesis by simp
  next
    case False
    then have a1: "a < 1" by simp
    define m where "m = \<lceil>1 / a\<rceil> - 1"
    have inv: "1 < 1 / a" using assms a1 by simp
    then have "2 \<le> \<lceil>1 / a\<rceil>" by linarith
    then have mp: "0 < m" by (simp add: m_def)
    have m1: "of_int m < 1 / a" unfolding m_def by linarith
    have m2: "1 / a \<le> of_int (m + 1)" unfolding m_def by simp
    have k: "ilog2 a = - bitlen m" using False by (simp add: ilog2_def m_def)
    have bp: "0 < bitlen m" using mp by (rule bitlen_pos)
    from bitlen_bounds [OF mp]
    have b1: "2 ^ nat (bitlen m - 1) \<le> m" and b2: "m < 2 ^ nat (bitlen m)" by auto
    have "m + 1 \<le> 2 ^ nat (bitlen m)" using b2 by simp
    then have "rat_of_int (m + 1) \<le> of_int (2 ^ nat (bitlen m))" by (simp only: of_int_le_iff)
    with m2 have "1 / a \<le> of_int (2 ^ nat (bitlen m))" by linarith
    also have "\<dots> = pow2 (bitlen m)" using bp by (simp add: pow2_nonneg_int)
    finally have "1 / a \<le> pow2 (bitlen m)" .
    then have "1 \<le> pow2 (bitlen m) * a" using assms by (simp add: field_simps)
    then have "1 / pow2 (bitlen m) \<le> a" using pow2_pos [of "bitlen m"]
      by (simp add: field_simps)
    then have l: "pow2 (ilog2 a) \<le> a" unfolding k by (simp add: pow2_minus)
    have "rat_of_int (2 ^ nat (bitlen m - 1)) \<le> of_int m" using b1 by (simp only: of_int_le_iff)
    with m1 have "of_int (2 ^ nat (bitlen m - 1)) < 1 / a" by linarith
    moreover have "pow2 (bitlen m - 1) = of_int (2 ^ nat (bitlen m - 1))"
      using bp by (simp add: pow2_nonneg_int)
    ultimately have "pow2 (bitlen m - 1) < 1 / a" by simp
    then have "pow2 (bitlen m - 1) * a < 1" using assms by (simp add: field_simps)
    then have "a < 1 / pow2 (bitlen m - 1)" using pow2_pos [of "bitlen m - 1"]
      by (simp add: field_simps)
    moreover have "ilog2 a + 1 = - (bitlen m - 1)" using k by simp
    ultimately have "a < pow2 (ilog2 a + 1)" by (simp only: pow2_minus)
    with l show ?thesis by simp
  qed
  then show "pow2 (ilog2 a) \<le> a" and "a < pow2 (ilog2 a + 1)" by auto
qed

lemma ilog2_mono:
  assumes "0 < a" "a \<le> b"
  shows "ilog2 a \<le> ilog2 b"
proof -
  have "pow2 (ilog2 a) \<le> a" using assms(1) by (rule ilog2_bounds)
  also have "a \<le> b" by fact
  also have "b < pow2 (ilog2 b + 1)" using assms by (intro ilog2_bounds) simp
  finally have "ilog2 a < ilog2 b + 1" by (rule pow2_less_cancel)
  then show ?thesis by simp
qed

lemma ilog2_ge: "pow2 k \<le> a \<Longrightarrow> k \<le> ilog2 a"
proof -
  assume h: "pow2 k \<le> a"
  then have pos: "0 < a" using pow2_pos [of k] by linarith
  have "pow2 k < pow2 (ilog2 a + 1)" using h ilog2_bounds(2) [OF pos] by linarith
  then have "k < ilog2 a + 1" by (rule pow2_less_cancel)
  then show ?thesis by simp
qed

lemma ilog2_less: "0 < a \<Longrightarrow> a < pow2 k \<Longrightarrow> ilog2 a < k"
proof -
  assume pos: "0 < a" and h: "a < pow2 k"
  have "pow2 (ilog2 a) < pow2 k" using h ilog2_bounds(1) [OF pos] by linarith
  then show ?thesis by (rule pow2_less_cancel)
qed

subsection \<open>Rounding to a float\<close>

lemma pow2_nonneg [simp]: "0 \<le> pow2 k"
  using pow2_pos [of k] by (rule less_imp_le)

lemma pow2_neq0 [simp]: "pow2 k \<noteq> 0"
  using pow2_pos [of k] by (rule less_imp_neq [symmetric])

lemma pow2_diff: "pow2 j / pow2 k = pow2 (j - k)"
proof -
  have "pow2 (j - k) * pow2 k = pow2 j" using pow2_add [of "j - k" k] by simp
  then show ?thesis by (simp add: field_simps)
qed

lemma rnd64_pos_nonneg:
  assumes "0 < a" shows "0 \<le> rnd64_pos a"
proof -
  define e where "e = max (ilog2 a - 52) (- 1074)"
  have "of_int 0 \<le> a / pow2 e" using assms pow2_pos [of e] by simp
  then have "0 \<le> round_half_even (a / pow2 e)" by (rule round_half_even_ge)
  then have "0 \<le> rat_of_int (round_half_even (a / pow2 e)) * pow2 e"
    using pow2_pos [of e] by simp
  then show ?thesis by (simp add: rnd64_pos_def e_def Let_def)
qed

lemma rnd64_pos_mono:
  assumes "0 < a" "a \<le> b"
  shows "rnd64_pos a \<le> rnd64_pos b"
proof -
  define ea where "ea = max (ilog2 a - 52) (- 1074)"
  define eb where "eb = max (ilog2 b - 52) (- 1074)"
  have ra: "rnd64_pos a = of_int (round_half_even (a / pow2 ea)) * pow2 ea"
    by (simp add: rnd64_pos_def ea_def Let_def)
  have rb: "rnd64_pos b = of_int (round_half_even (b / pow2 eb)) * pow2 eb"
    by (simp add: rnd64_pos_def eb_def Let_def)
  have pb: "0 < b" using assms by simp
  have il: "ilog2 a \<le> ilog2 b" using assms by (rule ilog2_mono)
  then have le: "ea \<le> eb" by (simp add: ea_def eb_def)
  show ?thesis
  proof (cases "ea = eb")
    case True
    have "a / pow2 eb \<le> b / pow2 eb" using assms(2) pow2_pos [of eb]
      by (simp add: divide_right_mono)
    then have "round_half_even (a / pow2 eb) \<le> round_half_even (b / pow2 eb)"
      by (rule round_half_even_mono)
    then have "rat_of_int (round_half_even (a / pow2 eb)) \<le> of_int (round_half_even (b / pow2 eb))"
      by (simp only: of_int_le_iff)
    then show ?thesis unfolding ra rb True using pow2_pos [of eb]
      by (simp add: mult_right_mono)
  next
    case False
    with le have lt: "ea < eb" by simp
    define k where "k = ilog2 b"
    have "- 1074 \<le> ea" by (simp add: ea_def)
    with lt have "- 1074 < eb" by simp
    then have ebk: "eb = k - 52" unfolding eb_def k_def by linarith
    have "ilog2 a - 52 \<le> ea" by (simp add: ea_def)
    with lt ebk have "ilog2 a + 1 \<le> k" by simp
    then have "pow2 (ilog2 a + 1) \<le> pow2 k" by (rule pow2_mono)
    with ilog2_bounds(2) [OF assms(1)] have ak: "a < pow2 k" by linarith
    have kb: "pow2 k \<le> b" unfolding k_def using pb by (rule ilog2_bounds)
    have kea: "0 \<le> k - ea" using lt ebk by simp
    have "a / pow2 ea \<le> pow2 k / pow2 ea" using ak pow2_pos [of ea]
      by (simp add: divide_right_mono)
    also have "\<dots> = of_int (2 ^ nat (k - ea))" using kea by (simp add: pow2_diff pow2_nonneg_int)
    finally have "round_half_even (a / pow2 ea) \<le> 2 ^ nat (k - ea)" by (rule round_half_even_le)
    then have "rat_of_int (round_half_even (a / pow2 ea)) \<le> of_int (2 ^ nat (k - ea))"
      by (simp only: of_int_le_iff)
    then have "rnd64_pos a \<le> of_int (2 ^ nat (k - ea)) * pow2 ea"
      unfolding ra using pow2_pos [of ea] by (simp add: mult_right_mono)
    also have "\<dots> = pow2 (k - ea) * pow2 ea" using kea by (simp add: pow2_nonneg_int)
    also have "\<dots> = pow2 k" using pow2_add [of "k - ea" ea] by simp
    finally have upper: "rnd64_pos a \<le> pow2 k" .
    have "pow2 k / pow2 eb \<le> b / pow2 eb" using kb pow2_pos [of eb]
      by (simp add: divide_right_mono)
    moreover have "pow2 k / pow2 eb = of_int (2 ^ nat 52)"
      unfolding pow2_diff ebk by (simp add: pow2_nonneg_int)
    ultimately have "of_int (2 ^ nat 52) \<le> b / pow2 eb" by simp
    then have "2 ^ nat 52 \<le> round_half_even (b / pow2 eb)" by (rule round_half_even_ge)
    then have "rat_of_int (2 ^ nat 52) \<le> of_int (round_half_even (b / pow2 eb))"
      by (simp only: of_int_le_iff)
    then have "of_int (2 ^ nat 52) * pow2 eb \<le> rnd64_pos b"
      unfolding rb using pow2_pos [of eb] by (simp add: mult_right_mono)
    moreover have "rat_of_int (2 ^ nat 52) * pow2 eb = pow2 52 * pow2 (k - 52)"
      unfolding ebk by (simp add: pow2_nonneg_int)
    moreover have "pow2 52 * pow2 (k - 52) = pow2 k" using pow2_add [of 52 "k - 52"] by simp
    ultimately have "pow2 k \<le> rnd64_pos b" by simp
    with upper show ?thesis by simp
  qed
qed

lemma rnd64_mono:
  assumes "x \<le> y" shows "rnd64 x \<le> rnd64 y"
proof -
  consider "0 < x" | "x = 0" | "x < 0" "y < 0" | "x < 0" "0 \<le> y" by linarith
  then show ?thesis
  proof cases
    case 1
    with assms have "0 < y" by simp
    with 1 assms show ?thesis by (simp add: rnd64_def rnd64_pos_mono)
  next
    case 2
    with assms show ?thesis by (auto simp: rnd64_def rnd64_pos_nonneg)
  next
    case 3
    then have "rnd64_pos (- y) \<le> rnd64_pos (- x)" using assms by (intro rnd64_pos_mono) auto
    with 3 show ?thesis by (simp add: rnd64_def)
  next
    case 4
    then have "0 \<le> rnd64_pos (- x)" by (intro rnd64_pos_nonneg) simp
    moreover have "0 \<le> rnd64 y" using 4(2) by (auto simp: rnd64_def rnd64_pos_nonneg)
    ultimately show ?thesis using 4(1) by (simp add: rnd64_def)
  qed
qed

lemma rnd64_zero [simp]: "rnd64 0 = 0"
  by (simp add: rnd64_def)

lemma rnd64_nonneg: "0 \<le> x \<Longrightarrow> 0 \<le> rnd64 x"
  using rnd64_mono [of 0 x] by simp

lemma rnd64_minus: "rnd64 (- x) = - rnd64 x"
  by (simp add: rnd64_def)

lemma rnd64_pos_two53: "rnd64_pos 9007199254740992 = 9007199254740992"
  by code_simp

lemma rnd64_pos_of_int:
  assumes "0 < n" "n \<le> 9007199254740992"
  shows "rnd64_pos (of_int n) = of_int n"
proof (cases "n = 9007199254740992")
  case True
  then show ?thesis using rnd64_pos_two53 by simp
next
  case False
  with assms have lt: "n < 9007199254740992" by simp
  define k where "k = ilog2 (rat_of_int n)"
  have pos: "0 < rat_of_int n" using assms by simp
  have "pow2 0 \<le> rat_of_int n" using assms
    by (simp add: pow2_nonneg_int)
  then have k0: "0 \<le> k" unfolding k_def by (rule ilog2_ge)
  have "rat_of_int n < of_int 9007199254740992" using lt by (simp only: of_int_less_iff)
  moreover have "pow2 53 = of_int 9007199254740992" by (simp add: pow2_nonneg_int)
  ultimately have "rat_of_int n < pow2 53" by simp
  with pos have k53: "k < 53" unfolding k_def by (rule ilog2_less)
  have e: "max (k - 52) (- 1074) = k - 52" using k0 by simp
  have "rat_of_int n / pow2 (k - 52) = of_int n * pow2 (52 - k)"
    using pow2_minus [of "52 - k"] by simp
  also have "\<dots> = of_int (n * 2 ^ nat (52 - k))" using k53 by (simp add: pow2_nonneg_int)
  finally have "round_half_even (rat_of_int n / pow2 (k - 52)) = n * 2 ^ nat (52 - k)"
    by (simp only: round_half_even_of_int)
  then have "rnd64_pos (of_int n) = of_int (n * 2 ^ nat (52 - k)) * pow2 (k - 52)"
    by (simp add: rnd64_pos_def Let_def k_def [symmetric] e)
  also have "\<dots> = of_int n * (pow2 (52 - k) * pow2 (k - 52))"
    using k53 by (simp add: pow2_nonneg_int)
  also have "pow2 (52 - k) * pow2 (k - 52) = 1"
    using pow2_add [of "52 - k" "k - 52"] by (simp add: pow2_nonneg_int)
  finally show ?thesis by simp
qed

lemma rnd64_of_int:
  assumes "\<bar>n\<bar> \<le> 9007199254740992"
  shows "rnd64 (of_int n) = of_int n"
proof -
  consider "n = 0" | "0 < n" | "n < 0" by linarith
  then show ?thesis
  proof cases
    case 1 then show ?thesis by simp
  next
    case 2
    with assms show ?thesis by (simp add: rnd64_def rnd64_pos_of_int)
  next
    case 3
    with assms have "rnd64_pos (of_int (- n)) = of_int (- n)" by (intro rnd64_pos_of_int) auto
    with 3 show ?thesis by (simp add: rnd64_def)
  qed
qed

lemma pow2_1024_gt: "9007199254740992 < pow2 1024"
  by code_simp

lemma rnd64_int_bounds:
  assumes "of_int lo \<le> x" "x \<le> of_int hi" "\<bar>lo\<bar> \<le> 9007199254740992" "\<bar>hi\<bar> \<le> 9007199254740992"
  shows "of_int lo \<le> rnd64 x" and "rnd64 x \<le> of_int hi"
  using rnd64_mono [OF assms(1)] rnd64_mono [OF assms(2)] assms(3,4)
  by (simp_all add: rnd64_of_int)

lemma fl64_between:
  assumes "lo \<le> x" "x \<le> hi" "- pow2 1024 < rnd64 lo" "rnd64 hi < pow2 1024"
  shows "fl64 x = Fin (rnd64 x)"
proof -
  have "rnd64 lo \<le> rnd64 x" "rnd64 x \<le> rnd64 hi"
    using assms(1,2) by (auto intro: rnd64_mono)
  with assms(3,4) show ?thesis by (simp add: fl64_def Let_def)
qed

lemma fl64_small:
  assumes "\<bar>x\<bar> \<le> 9007199254740992"
  shows "fl64 x = Fin (rnd64 x)"
proof -
  have b: "rat_of_int (- 9007199254740992) \<le> x" "x \<le> rat_of_int 9007199254740992"
    using assms by auto
  have "rat_of_int (- 9007199254740992) \<le> rnd64 x"
    by (rule rnd64_int_bounds(1) [OF b]) simp_all
  moreover have "rnd64 x \<le> rat_of_int 9007199254740992"
    by (rule rnd64_int_bounds(2) [OF b]) simp_all
  ultimately show ?thesis using pow2_1024_gt by (simp add: fl64_def Let_def)
qed

lemma fl64_of_int:
  assumes "\<bar>n\<bar> \<le> 9007199254740992"
  shows "fl64 (of_int n) = Fin (of_int n)"
proof -
  have "\<bar>rat_of_int n\<bar> \<le> 9007199254740992"
    using assms by (metis of_int_abs of_int_le_iff of_int_numeral)
  then show ?thesis using assms by (simp add: fl64_small rnd64_of_int)
qed

section \<open>Properties of the curve evaluation\<close>

text \<open>
  C3.  For the curve [(30,0),(60,40),(90,85)] the target at 75 degrees is PWM 159 with
  smooth interpolation (duty 62.5 percent) and PWM 102 with discrete interpolation
  (duty 40 percent, the lower bracketing point), in floating-point arithmetic.
\<close>

theorem calculate_target_pwm_examples:
  "calculate_target_pwm (defaults\<lparr>curve := [(30, 0), (60, 40), (90, 85)],
       curve_interpolation := ''smooth''\<rparr>) 75 = Inr (Some 159)
   \<and> target_speed_percent ''smooth'' (sort_key fst [(30, 0), (60, 40), (90, 85)]) 75
       = Fin (125 / 2)
   \<and> calculate_target_pwm (defaults\<lparr>curve := [(30, 0), (60, 40), (90, 85)],
       curve_interpolation := ''discrete''\<rparr>) 75 = Inr (Some 102)
   \<and> target_speed_percent ''discrete'' (sort_key fst [(30, 0), (60, 40), (90, 85)]) 75
       = Fin 40"
  by code_simp

end
